theory Spec2Isabelle
  imports Complex_Main "HOL-Library.Signed_Division"
begin

section \<open>The probability engine of DuelMath (src/services/mathUtils.ts)\<close>

text \<open>
  The engine works on three kinds of numbers. Arguments typed \<^verbatim>\<open>number\<close> that count
  cards, players, rounds or ranks are integers (the callers pass results of
  \<^verbatim>\<open>parseInt\<close> and array lengths) and are modelled as \<^typ>\<open>int\<close>. Values of
  type \<^verbatim>\<open>bigint\<close> are unbounded integers and are modelled as \<^typ>\<open>int\<close> too.
  Fractional \<^verbatim>\<open>number\<close> results (percentages, expected player counts) are modelled
  as exact rationals, \<^typ>\<open>rat\<close>: the rounding of IEEE doubles, their overflow to
  Infinity and NaN are outside this model. Every theorem below is about the exact value
  that the double arithmetic of the source approximates.
\<close>

subsection \<open>Conversions and display rounding\<close>

text \<open>\<^verbatim>\<open>Number(b)\<close> for a bigint \<^verbatim>\<open>b\<close>.\<close>

definition Number :: "int \<Rightarrow> rat" where
  "Number b = of_int b"

text \<open>
  \<^verbatim>\<open>parseFloat(x.toFixed(2))\<close>: the multiple of 1/100 nearest to \<^verbatim>\<open>x\<close>; of two
  equally near ones \<^verbatim>\<open>toFixed\<close> takes the larger for a non-negative \<^verbatim>\<open>x\<close>, and
  treats a negative \<^verbatim>\<open>x\<close> through its absolute value.
\<close>

definition toFixed2 :: "rat \<Rightarrow> rat" where
  "toFixed2 x =
     (if x < 0 then - (of_int \<lfloor>(- x) * 100 + 1 / 2\<rfloor> / 100)
      else of_int \<lfloor>x * 100 + 1 / 2\<rfloor> / 100)"

subsection \<open>combinations\<close>

text \<open>
  The loop \<^verbatim>\<open>for (let i = 1; i <= k; i++) res = (res * BigInt(n - i + 1)) / BigInt(i)\<close>.
  Division of bigints truncates towards zero, which is \<open>sdiv\<close>; \<^verbatim>\<open>i\<close> starts at 1, so
  the divisor is never zero.
\<close>

function comb_loop :: "int \<Rightarrow> int \<Rightarrow> int \<Rightarrow> int \<Rightarrow> int" where
  "comb_loop n k i res =
     (if i \<le> k then comb_loop n k (i + 1) ((res * (n - i + 1)) sdiv i) else res)"
  by pat_completeness auto
termination
  by (relation "measure (\<lambda>(n, k, i, res). nat (k + 1 - i))") auto

declare comb_loop.simps [simp del]

text \<open>
  \<^verbatim>\<open>combinations(n, k)\<close> without its cache. The test \<^verbatim>\<open>k > n / 2\<close> is a comparison of
  doubles, written here on rationals.
\<close>

definition combinations :: "int \<Rightarrow> int \<Rightarrow> int" where
  "combinations n k =
     (if k < 0 \<or> k > n then 0
      else if k = 0 \<or> k = n then 1
      else let k' = (if (of_int k :: rat) > of_int n / 2 then n - k else k)
           in comb_loop n k' 1 1)"

text \<open>
  The function as the source has it, with the module-level cache \<^verbatim>\<open>comboMemo\<close> passed
  in and returned. The key \<^verbatim>\<open>`${n},${k}`\<close> determines the pair \<open>(n, k)\<close>, so the cache
  is a map on pairs. A cached \<^verbatim>\<open>0n\<close> is falsy and is recomputed.
\<close>

type_synonym comboMemo = "int \<times> int \<rightharpoonup> int"

definition combinations_memo :: "comboMemo \<Rightarrow> int \<Rightarrow> int \<Rightarrow> int \<times> comboMemo" where
  "combinations_memo memo n k =
     (if k < 0 \<or> k > n then (0, memo)
      else if k = 0 \<or> k = n then (1, memo)
      else let k' = (if (of_int k :: rat) > of_int n / 2 then n - k else k);
               key = (n, k')
           in (case memo key of
                 Some v \<Rightarrow>
                   if v \<noteq> 0 then (v, memo)
                   else (let res = comb_loop n k' 1 1 in (res, memo(key \<mapsto> res)))
               | None \<Rightarrow> (let res = comb_loop n k' 1 1 in (res, memo(key \<mapsto> res)))))"

text \<open>A cache is sound when every entry is the value the loop computes for its key.\<close>

definition memo_sound :: "comboMemo \<Rightarrow> bool" where
  "memo_sound memo = (\<forall>n k v. memo (n, k) = Some v \<longrightarrow> v = comb_loop n k 1 1)"

subsection \<open>calculateMultivariateHyper\<close>

record HyperGroup =
  id' :: string
  name :: string
  countInDeck :: int
  minDesired :: int
  maxDesired :: int

text \<open>
  The inner function \<^verbatim>\<open>solve\<close>. Its \<^verbatim>\<open>groupIndex\<close> walks the array from 0 upwards one
  step at a time, so the state of the walk is the list of groups not yet visited; the
  captured \<^verbatim>\<open>otherCount\<close> is a parameter; the accumulator
  \<^verbatim>\<open>totalSuccessfulCombinations\<close>, which only \<^verbatim>\<open>solve\<close> updates, is passed in (as
  \<open>successful\<close>) and returned. The \<^verbatim>\<open>for\<close> loop over \<^verbatim>\<open>take\<close> has fixed bounds and
  is a fold over \<open>[minTake..maxTake]\<close>.
\<close>

fun solve :: "int \<Rightarrow> HyperGroup list \<Rightarrow> int \<Rightarrow> int \<Rightarrow> int \<Rightarrow> int" where
  "solve otherCount [] remainingHand currentWays successful =
     (if remainingHand < 0 then successful
      else if remainingHand \<le> otherCount
        then successful + currentWays * combinations otherCount remainingHand
        else successful)"
| "solve otherCount (grp # rest) remainingHand currentWays successful =
     (if remainingHand < 0 then successful
      else let minTake = max 0 (minDesired grp);
               maxTake = min remainingHand (min (countInDeck grp) (maxDesired grp))
           in fold (\<lambda>take successful.
                      let ways = combinations (countInDeck grp) take
                      in if ways > 0
                         then solve otherCount rest (remainingHand - take) (currentWays * ways)
                                successful
                         else successful)
                [minTake..maxTake] successful)"

definition calculateMultivariateHyper :: "int \<Rightarrow> int \<Rightarrow> HyperGroup list \<Rightarrow> rat" where
  "calculateMultivariateHyper deckSize handSize groups =
     (if handSize > deckSize \<or> handSize < 0 then 0
      else let totalInGroups = foldl (\<lambda>acc g. acc + countInDeck g) 0 groups
           in if totalInGroups > deckSize then 0
              else let otherCount = deckSize - totalInGroups;
                       totalCombinations = combinations deckSize handSize
                   in if totalCombinations = 0 then 0
                      else let totalSuccessfulCombinations = solve otherCount groups handSize 1 0
                           in (Number totalSuccessfulCombinations / Number totalCombinations) * 100)"

subsection \<open>calculateProbabilities\<close>

record DrawRow =
  drawCount :: int
  exact :: rat
  cumulativeAtLeast :: rat

definition calculateProbabilities :: "int \<Rightarrow> int \<Rightarrow> int \<Rightarrow> DrawRow list" where
  "calculateProbabilities deckSize targetCount handSize =
     (let maxPossible = min targetCount handSize
      in fold (\<lambda>i result.
                 let exactProb = calculateMultivariateHyper deckSize handSize
                       [\<lparr>id' = ''tmp'', name = ''tmp'', countInDeck = targetCount,
                         minDesired = i, maxDesired = i\<rparr>];
                     atLeastProb = calculateMultivariateHyper deckSize handSize
                       [\<lparr>id' = ''tmp'', name = ''tmp'', countInDeck = targetCount,
                         minDesired = i, maxDesired = handSize\<rparr>]
                 in result @ [\<lparr>drawCount = i, exact = toFixed2 exactProb,
                                cumulativeAtLeast = toFixed2 atLeastProb\<rparr>])
           [0..maxPossible] [])"

subsection \<open>calculateSwissStandings\<close>

record SwissStanding =
  wins :: int
  losses :: int
  count :: rat
  lowerBound :: int
  upperBound :: int

text \<open>
  The loop runs \<^verbatim>\<open>wins\<close> from \<^verbatim>\<open>numRounds\<close> down to 0 and pushes one entry per
  value. \<^verbatim>\<open>2 ** numRounds\<close> is a power with an integer exponent.
\<close>

definition calculateSwissStandings :: "int \<Rightarrow> int \<Rightarrow> SwissStanding list" where
  "calculateSwissStandings numPlayers numRounds =
     (let totalCombinations = power_int (2 :: rat) numRounds
      in fold (\<lambda>wins standings.
                 let losses = numRounds - wins;
                     ways = Number (combinations numRounds wins);
                     exactProb = ways / totalCombinations;
                     count = exactProb * of_int numPlayers;
                     lowerBound = \<lfloor>count\<rfloor>;
                     upperBound = max lowerBound \<lceil>count\<rceil>
                 in standings @ [\<lparr>wins = wins, losses = losses, count = count,
                                   lowerBound = lowerBound, upperBound = upperBound\<rparr>])
           (rev [0..numRounds]) [])"

subsection \<open>calculateTopXProbability\<close>

text \<open>
  One pass of the first loop of \<^verbatim>\<open>calculateTopXProbability\<close>: the state is the pair
  of \<^verbatim>\<open>makeItChanceMap\<close> and \<^verbatim>\<open>cumulativePlayers\<close>. The division is reached only
  with \<open>prevCumulative < targetRank < prevCumulative + playersAtThisRecord\<close>, so its
  divisor is never zero.
\<close>

definition chanceStep ::
  "int \<Rightarrow> SwissStanding \<Rightarrow> (int \<rightharpoonup> rat) \<times> rat \<Rightarrow> (int \<rightharpoonup> rat) \<times> rat" where
  "chanceStep targetRank s st =
     (let makeItChanceMap = fst st;
          playersAtThisRecord = count s;
          prevCumulative = snd st;
          cumulativePlayers = snd st + playersAtThisRecord
      in if cumulativePlayers \<le> of_int targetRank
           then (makeItChanceMap(wins s \<mapsto> 1), cumulativePlayers)
         else if prevCumulative < of_int targetRank
           then (makeItChanceMap(wins s \<mapsto>
                   (of_int targetRank - prevCumulative) / playersAtThisRecord),
                 cumulativePlayers)
         else (makeItChanceMap(wins s \<mapsto> 0), cumulativePlayers))"

definition makeItChanceMap :: "int \<Rightarrow> SwissStanding list \<Rightarrow> (int \<rightharpoonup> rat)" where
  "makeItChanceMap targetRank standings =
     fst (fold (chanceStep targetRank) standings (Map.empty, 0))"

definition calculateTopXProbability :: "int \<Rightarrow> int \<Rightarrow> int \<Rightarrow> int \<Rightarrow> int \<Rightarrow> rat" where
  "calculateTopXProbability totalPlayers totalRounds targetRank currentWins currentLosses =
     (let remainingRounds = totalRounds - (currentWins + currentLosses)
      in if remainingRounds < 0 then 0
         else if targetRank \<ge> totalPlayers then 100
         else let standings = calculateSwissStandings totalPlayers totalRounds;
                  chanceMap = makeItChanceMap targetRank standings;
                  denominator = power_int (2 :: rat) remainingRounds;
                  totalProbability =
                    fold (\<lambda>i totalProbability.
                            let finalWins = currentWins + i;
                                probGettingMoreWins =
                                  Number (combinations remainingRounds i) / denominator;
                                chanceOfMakingItAtThatRecord =
                                  (case chanceMap finalWins of None \<Rightarrow> 0 | Some c \<Rightarrow> c)
                            in totalProbability
                                 + probGettingMoreWins * chanceOfMakingItAtThatRecord)
                      [0..remainingRounds] 0
              in toFixed2 (totalProbability * 100))"

subsection \<open>The enumeration that the solver is specified to compute\<close>


text \<open>
  The tuples of per-group draw counts that satisfy every constraint: one count per group,
  each inside the group's \<open>[minDesired, maxDesired]\<close>, their sum at most the hand size,
  and the rest of the hand no larger than the unallocated remainder of the pool.
\<close>

definition takeTuples :: "int \<Rightarrow> int \<Rightarrow> HyperGroup list \<Rightarrow> int list set" where
  "takeTuples otherCount handSize groups =
     {takes. length takes = length groups \<and>
        (\<forall>i < length groups.
           minDesired (groups ! i) \<le> takes ! i \<and> takes ! i \<le> maxDesired (groups ! i)) \<and>
        sum_list takes \<le> handSize \<and> handSize - sum_list takes \<le> otherCount}"


text \<open>
  The same enumeration on the list of groups not yet visited, in a form that follows the
  recursion of \<open>solve\<close>.
\<close>

definition inRanges :: "HyperGroup list \<Rightarrow> int list \<Rightarrow> bool" where
  "inRanges gs ts = list_all2 (\<lambda>g t. minDesired g \<le> t \<and> t \<le> maxDesired g) gs ts"


definition feasible :: "int \<Rightarrow> int \<Rightarrow> HyperGroup list \<Rightarrow> int list set" where
  "feasible otherCount r gs =
     {ts. inRanges gs ts \<and> sum_list ts \<le> r \<and> r - sum_list ts \<le> otherCount}"


subsection \<open>Auxiliary definitions for the standings and the qualification chances\<close>



section \<open>Properties of combinations\<close>

text \<open>One pass of the loop turns the binomial coefficient of \<open>i - 1\<close> into that of \<open>i\<close>.\<close>

lemma binomial_step_nat: "(m choose j) * (m - j) div Suc j = m choose Suc j"
proof -
  have "Suc j * (m choose Suc j) = (m - j) * (m choose j)"
    by (simp only: binomial_absorption binomial_absorb_comp)
  then have "(m choose j) * (m - j) = (m choose Suc j) * Suc j"
    by (simp add: mult.commute)
  then show ?thesis
    by (simp del: mult_Suc_right)
qed

lemma sdiv_nonneg: "0 \<le> a \<Longrightarrow> 0 < b \<Longrightarrow> a sdiv b = a div (b::int)"
  by (simp add: signed_divide_int_def sgn_if)

lemma binomial_step_int:
  assumes "1 \<le> i" "i \<le> n"
  shows "(int (nat n choose nat (i - 1)) * (n - i + 1)) sdiv i = int (nat n choose nat i)"
proof -
  define m where "m = nat n"
  define j where "j = nat (i - 1)"
  have i: "i = int (Suc j)" and n: "n = int m" and jm: "j < m"
    using assms by (auto simp: m_def j_def)
  have "n - i + 1 = int (m - j)"
    using jm by (simp add: i n)
  then have "int (nat n choose nat (i - 1)) * (n - i + 1) = int ((m choose j) * (m - j))"
    by (simp add: m_def j_def)
  moreover have "0 \<le> int ((m choose j) * (m - j))" by simp
  moreover have "nat i = Suc j" using i by simp
  moreover have "int ((m choose j) * (m - j)) div int (Suc j)
      = int ((m choose j) * (m - j) div Suc j)"
    by (rule zdiv_int [symmetric])
  ultimately show ?thesis
    using i by (simp only: sdiv_nonneg binomial_step_nat m_def [symmetric])
qed

lemma half_gt_iff: "((of_int k :: rat) > of_int n / 2) = (2 * k > n)"
proof -
  have "((of_int k :: rat) > of_int n / 2) = ((of_int n :: rat) < of_int (2 * k))"
    by (simp add: field_simps)
  also have "\<dots> = (n < 2 * k)"
    by (rule of_int_less_iff)
  finally show ?thesis .
qed

lemma comb_loop_binomial:
  "1 \<le> i \<Longrightarrow> i \<le> k + 1 \<Longrightarrow> k \<le> n \<Longrightarrow> res = int (nat n choose nat (i - 1))
     \<Longrightarrow> comb_loop n k i res = int (nat n choose nat k)"
proof (induction n k i res rule: comb_loop.induct)
  case (1 n k i res)
  show ?case
  proof (cases "i \<le> k")
    case True
    have step: "(res * (n - i + 1)) sdiv i = int (nat n choose nat (i + 1 - 1))"
      using binomial_step_int [of i n] "1.prems" True by simp
    have "comb_loop n k (i + 1) ((res * (n - i + 1)) sdiv i) = int (nat n choose nat k)"
      using "1.IH" [OF True _ _ _ step] "1.prems" True by simp
    then show ?thesis
      using True by (subst comb_loop.simps) simp
  next
    case False
    then have "i = k + 1" using "1.prems" by simp
    then show ?thesis
      using "1.prems" by (subst comb_loop.simps) simp
  qed
qed

text \<open>Inside \<open>0 \<le> k \<le> n\<close> the function is the binomial coefficient.\<close>

lemma combinations_binomial:
  assumes "0 \<le> k" "k \<le> n"
  shows "combinations n k = int (nat n choose nat k)"
proof -
  consider "k = 0" | "k = n" | "0 < k" "k < n" "2 * k > n" | "0 < k" "k < n" "2 * k \<le> n"
    using assms by linarith
  then show ?thesis
  proof cases
    case 1 then show ?thesis using assms by (simp add: combinations_def)
  next
    case 2 then show ?thesis using assms by (simp add: combinations_def)
  next
    case 3
    have gt: "(of_int k :: rat) > of_int n / 2"
      using 3 by (simp only: half_gt_iff)
    have "combinations n k = comb_loop n (n - k) 1 1"
      using 3 gt by (simp add: combinations_def)
    also have "\<dots> = int (nat n choose nat (n - k))"
      using 3 by (intro comb_loop_binomial) simp_all
    also have "nat n choose nat (n - k) = nat n choose nat k"
      using assms binomial_symmetric [of "nat k" "nat n"] by (simp add: nat_diff_distrib)
    finally show ?thesis .
  next
    case 4
    have ngt: "\<not> (of_int k :: rat) > of_int n / 2"
      using 4 by (simp only: half_gt_iff)
    have "combinations n k = comb_loop n k 1 1"
      using 4 ngt by (simp add: combinations_def)
    also have "\<dots> = int (nat n choose nat k)"
      using 4 by (intro comb_loop_binomial) simp_all
    finally show ?thesis .
  qed
qed





text \<open>
  The cache is transparent: on a sound cache the cached function returns what
  \<open>combinations\<close> returns and leaves the cache sound. The cache starts empty, which is
  sound, so every caller can be read against \<open>combinations\<close>.
\<close>

lemma memo_sound_empty: "memo_sound Map.empty"
  by (simp add: memo_sound_def)

lemma combinations_memo_correct:
  assumes "memo_sound memo"
  shows "fst (combinations_memo memo n k) = combinations n k"
    and "memo_sound (snd (combinations_memo memo n k))"
  using assms
  by (auto simp: combinations_memo_def combinations_def memo_sound_def Let_def
      split: option.splits)

text \<open>
  Claim C8. \<^verbatim>\<open>combinations(n, k)\<close> returns 0 for every \<open>k < 0\<close> or \<open>k > n\<close>, and
  returns 1 for every \<open>n \<ge> 0\<close> when \<open>k = 0\<close> or \<open>k = n\<close>.
\<close>

theorem combinations_edge_cases:
  "(k < 0 \<or> k > n \<longrightarrow> combinations n k = 0) \<and>
   (0 \<le> n \<and> (k = 0 \<or> k = n) \<longrightarrow> combinations n k = 1)"
  by (auto simp: combinations_def)

theorem combinations_edge_cases_witness:
  "((7::int) > 5 \<and> combinations 5 7 = 0) \<and> ((-1::int) < 0 \<and> combinations 5 (-1) = 0) \<and>
   ((0::int) \<le> 5 \<and> combinations 5 0 = 1) \<and> combinations 5 5 = 1"
  using combinations_edge_cases [of 7 5] combinations_edge_cases [of "-1" 5]
    combinations_edge_cases [of 0 5] combinations_edge_cases [of 5 5]
  by simp

lemma sum_upto_conv: "0 \<le> n \<Longrightarrow> (\<Sum>k = 0..n. f k) = (\<Sum>j\<le>nat n. f (int j))"
proof -
  assume n: "0 \<le> n"
  have "{0..n} = int ` {..nat n}"
    using n by (simp add: image_int_atLeastAtMost flip: atLeast0AtMost)
  then show ?thesis
    by (simp add: sum.reindex)
qed

lemma binomial_row_sum_int: "0 \<le> n \<Longrightarrow> (\<Sum>k = 0..n. int (nat n choose nat k)) = 2 ^ nat n"
proof -
  assume n: "0 \<le> n"
  have "(\<Sum>k = 0..n. int (nat n choose nat k)) = (\<Sum>j\<le>nat n. int (nat n choose j))"
    using n by (simp add: sum_upto_conv)
  also have "\<dots> = int (\<Sum>j\<le>nat n. nat n choose j)"
    by simp
  also have "\<dots> = 2 ^ nat n"
    by (simp only: choose_row_sum) simp
  finally show ?thesis .
qed


text \<open>
  Claim C9. For every \<open>n\<close> with \<open>0 \<le> n \<le> 40\<close> (and beyond: no upper bound is needed),
  the sum of \<^verbatim>\<open>combinations(n, k)\<close> for \<open>k\<close> from 0 to \<open>n\<close> is exactly \<open>2 ^ n\<close>, as an
  unbounded integer.
\<close>

theorem combinations_row_sum:
  assumes "0 \<le> n"
  shows "(\<Sum>k = 0..n. combinations n k) = 2 ^ nat n"
proof -
  have "(\<Sum>k = 0..n. combinations n k) = (\<Sum>k = 0..n. int (nat n choose nat k))"
    by (intro sum.cong refl) (simp add: combinations_binomial)
  then show ?thesis
    using assms by (simp only: binomial_row_sum_int)
qed

theorem combinations_row_sum_witness:
  "(0::int) \<le> 40 \<and> (\<Sum>k = 0..40. combinations 40 k) = 1099511627776"
  using combinations_row_sum [of 40] by simp

section \<open>The constraint solver\<close>



lemma inRanges_Nil [simp]: "inRanges [] ts = (ts = [])"
  by (simp add: inRanges_def)

lemma inRanges_Cons:
  "inRanges (g # gs) ts =
     (\<exists>t ts'. ts = t # ts' \<and> minDesired g \<le> t \<and> t \<le> maxDesired g \<and> inRanges gs ts')"
  by (auto simp: inRanges_def list_all2_Cons1)

lemma feasible_Nil:
  "feasible otherCount r [] = (if 0 \<le> r \<and> r \<le> otherCount then {[]} else {})"
  by (auto simp: feasible_def)

lemma feasible_Cons:
  "feasible otherCount r (g # gs) =
     (\<Union>t \<in> {minDesired g..maxDesired g}. (#) t ` feasible otherCount (r - t) gs)"
  by (auto simp: feasible_def inRanges_Cons image_iff algebra_simps)

lemma finite_feasible: "finite (feasible otherCount r gs)"
proof (induction gs arbitrary: r)
  case Nil
  show ?case by (simp add: feasible_Nil)
next
  case (Cons g gs)
  show ?case by (simp add: feasible_Cons Cons.IH)
qed










lemma takeTuples_feasible: "takeTuples otherCount r gs = feasible otherCount r gs"
  by (auto simp: takeTuples_def feasible_def inRanges_def list_all2_conv_all_nth)

lemma finite_takeTuples: "finite (takeTuples otherCount r gs)"
  by (simp add: takeTuples_feasible finite_feasible)



lemma totalInGroups_sum: "foldl (\<lambda>acc g. acc + countInDeck g) a gs = a + sum_list (map countInDeck gs)"
  by (induction gs arbitrary: a) simp_all

lemma hyper_three_of_exact:
  "calculateMultivariateHyper 40 5
     [\<lparr>id' = ''tmp'', name = ''tmp'', countInDeck = 3, minDesired = 1, maxDesired = 3\<rparr>]
     = 100 * (222111 / 658008)"
  by code_simp




text \<open>
  Claim C5. \<^verbatim>\<open>calculateMultivariateHyper\<close> returns 0 whenever \<open>handSize > deckSize\<close>, or
  the groups' \<open>countInDeck\<close> sum exceeds \<open>deckSize\<close>, or \<open>C(deckSize, handSize)\<close> is 0.
\<close>

theorem calculateMultivariateHyper_zero:
  "handSize > deckSize \<or> sum_list (map countInDeck groups) > deckSize \<or>
     combinations deckSize handSize = 0
   \<longrightarrow> calculateMultivariateHyper deckSize handSize groups = 0"
  by (simp add: calculateMultivariateHyper_def totalInGroups_sum Let_def)

theorem calculateMultivariateHyper_zero_witness:
  "((6::int) > 5 \<and> calculateMultivariateHyper 5 6 [] = 0) \<and>
   (sum_list (map countInDeck
      [\<lparr>id' = ''a'', name = ''a'', countInDeck = 41, minDesired = 0, maxDesired = 5\<rparr>]) > 40 \<and>
    calculateMultivariateHyper 40 5
      [\<lparr>id' = ''a'', name = ''a'', countInDeck = 41, minDesired = 0, maxDesired = 5\<rparr>] = 0) \<and>
   (combinations 5 (- 1) = 0 \<and> calculateMultivariateHyper 5 (- 1) [] = 0)"
  using calculateMultivariateHyper_zero [where deckSize = 5 and handSize = 6 and groups = "[]"]
    calculateMultivariateHyper_zero [where deckSize = 40 and handSize = 5 and groups =
      "[\<lparr>id' = ''a'', name = ''a'', countInDeck = 41, minDesired = 0, maxDesired = 5\<rparr>]"]
    calculateMultivariateHyper_zero [where deckSize = 5 and handSize = "- 1" and groups = "[]"]
  by (simp add: combinations_def)



lemma hyper_three_of_rounded: "toFixed2 (100 * (222111 / 658008)) = 3376 / 100"
  by code_simp

text \<open>
  Claim C2, as stated: \<^verbatim>\<open>calculateMultivariateHyper(40, 5, [{countInDeck: 3, minDesired: 1,
  maxDesired: 3}])\<close> is 39.76 to two decimal places. It is not: the value is
  \<open>100 * 222111 / 658008\<close>, which is 33.755...
\<close>

theorem three_of_stated_value_refuted:
  "\<not> \<bar>calculateMultivariateHyper 40 5
        [\<lparr>id' = ''tmp'', name = ''tmp'', countInDeck = 3, minDesired = 1, maxDesired = 3\<rparr>]
      - 3976 / 100\<bar> \<le> 5 / 1000"
  by (simp add: hyper_three_of_exact)

text \<open>
  Claim C2, amended: the value is \<open>100 * (C(40,5) - C(37,5)) / C(40,5) = 100 * 222111 / 658008\<close>,
  which is 33.76 to two decimal places.
\<close>

theorem three_of_known_value:
  "calculateMultivariateHyper 40 5
     [\<lparr>id' = ''tmp'', name = ''tmp'', countInDeck = 3, minDesired = 1, maxDesired = 3\<rparr>]
     = 100 * (222111 / 658008) \<and>
   \<bar>calculateMultivariateHyper 40 5
       [\<lparr>id' = ''tmp'', name = ''tmp'', countInDeck = 3, minDesired = 1, maxDesired = 3\<rparr>]
     - 3376 / 100\<bar> \<le> 5 / 1000 \<and>
   toFixed2 (calculateMultivariateHyper 40 5
       [\<lparr>id' = ''tmp'', name = ''tmp'', countInDeck = 3, minDesired = 1, maxDesired = 3\<rparr>])
     = 3376 / 100"
proof (intro conjI)
  show "calculateMultivariateHyper 40 5
     [\<lparr>id' = ''tmp'', name = ''tmp'', countInDeck = 3, minDesired = 1, maxDesired = 3\<rparr>]
     = 100 * (222111 / 658008)"
    by (rule hyper_three_of_exact)
  show "\<bar>calculateMultivariateHyper 40 5
       [\<lparr>id' = ''tmp'', name = ''tmp'', countInDeck = 3, minDesired = 1, maxDesired = 3\<rparr>]
     - 3376 / 100\<bar> \<le> 5 / 1000"
    by (simp add: hyper_three_of_exact)
  show "toFixed2 (calculateMultivariateHyper 40 5
       [\<lparr>id' = ''tmp'', name = ''tmp'', countInDeck = 3, minDesired = 1, maxDesired = 3\<rparr>])
     = 3376 / 100"
    by (subst hyper_three_of_exact) (rule hyper_three_of_rounded)
qed

section \<open>The draw-probability table\<close>

lemma draw_table_value:
  "calculateProbabilities 40 3 5 =
    [\<lparr>drawCount = 0, exact = 1656 / 25, cumulativeAtLeast = 100\<rparr>,
     \<lparr>drawCount = 1, exact = 3011 / 100, cumulativeAtLeast = 844 / 25\<rparr>,
     \<lparr>drawCount = 2, exact = 177 / 50, cumulativeAtLeast = 91 / 25\<rparr>,
     \<lparr>drawCount = 3, exact = 1 / 10, cumulativeAtLeast = 1 / 10\<rparr>]"
  by code_simp

text \<open>
  Claim C7. In the table \<^verbatim>\<open>calculateProbabilities(40, 3, 5)\<close> the row for 0 copies has
  the at-least probability 100, and the at-least probabilities never increase from one
  row to the next.
\<close>

theorem draw_table_at_least:
  "map cumulativeAtLeast (filter (\<lambda>r. drawCount r = 0) (calculateProbabilities 40 3 5)) = [100] \<and>
   map drawCount (calculateProbabilities 40 3 5) = [0, 1, 2, 3] \<and>
   sorted_wrt (\<lambda>a b. a \<ge> b) (map cumulativeAtLeast (calculateProbabilities 40 3 5))"
  by (simp add: draw_table_value)

section \<open>The Swiss standings\<close>







section \<open>The top-rank estimator\<close>

text \<open>
  Claim C6. \<^verbatim>\<open>calculateTopXProbability\<close> returns 0 when
  \<open>currentWins + currentLosses > totalRounds\<close>, and 100 when
  \<open>currentWins + currentLosses \<le> totalRounds\<close> and \<open>targetRank \<ge> totalPlayers\<close>; in
  particular it is 100 at (64, 6, 64, 0, 0).
\<close>

theorem topX_guards:
  "(currentWins + currentLosses > totalRounds \<longrightarrow>
      calculateTopXProbability totalPlayers totalRounds targetRank currentWins currentLosses = 0) \<and>
   (currentWins + currentLosses \<le> totalRounds \<and> targetRank \<ge> totalPlayers \<longrightarrow>
      calculateTopXProbability totalPlayers totalRounds targetRank currentWins currentLosses = 100) \<and>
   calculateTopXProbability 64 6 64 0 0 = 100"
  by (simp add: calculateTopXProbability_def)

theorem topX_guards_witness:
  "((4::int) + 3 > 6 \<and> calculateTopXProbability 64 6 8 4 3 = 0) \<and>
   ((2::int) + 1 \<le> 6 \<and> (70::int) \<ge> 64 \<and> calculateTopXProbability 64 6 70 2 1 = 100)"
  using topX_guards [where currentWins = 4 and currentLosses = 3 and totalRounds = 6
      and totalPlayers = 64 and targetRank = 8]
    topX_guards [where currentWins = 2 and currentLosses = 1 and totalRounds = 6
      and totalPlayers = 64 and targetRank = 70]
  by simp

















end
